theory Spec2Isabelle
  imports Main
begin

section \<open>Values, rows and uploaded files\<close>

text \<open>
  The spreadsheet reader (\<^verbatim>\<open>XLSX.read\<close> followed by \<^verbatim>\<open>XLSX.utils.sheet_to_json\<close>) hands
  the application an array of row objects. A cell holds a string, a number or a boolean; a
  missing cell reads as \<^verbatim>\<open>undefined\<close>. The code tests a number for truthiness, puts it
  into a \<^verbatim>\<open>Set\<close> and prints it as a property key, and does nothing else with it. So a
  number is represented by the text JavaScript prints for it (\<^verbatim>\<open>5\<close>, \<^verbatim>\<open>0.5\<close>,
  \<^verbatim>\<open>1e+21\<close>, \<^verbatim>\<open>NaN\<close>): two numbers are the same member of a \<^verbatim>\<open>Set\<close> exactly when
  they print alike (both zeros print \<^verbatim>\<open>0\<close>), and the falsy numbers are the ones that
  print \<^verbatim>\<open>0\<close> or \<^verbatim>\<open>NaN\<close>.
\<close>

datatype jsval = Undefined | Str string | Num string | Bool bool

text \<open>
  A row object is the list of its own enumerable properties, in the order in which
  \<^verbatim>\<open>Object.keys\<close> lists them.
\<close>

type_synonym row = "(string \<times> jsval) list"

text \<open>
  An uploaded file is represented by what the reader makes of it: either reading throws,
  or the first worksheet decodes to a list of rows.
\<close>

datatype worksheet = ReadFails | Rows "row list"

record File =
  name :: string
  sheet :: worksheet

datatype exn = ReaderError

subsection \<open>JavaScript primitives used by the component\<close>

text \<open>\<^verbatim>\<open>Boolean(v)\<close>: the truthiness test used by \<^verbatim>\<open>filter(Boolean)\<close>.\<close>

fun Boolean :: "jsval \<Rightarrow> bool" where
  "Boolean Undefined = False"
| "Boolean (Str s) = (s \<noteq> [])"
| "Boolean (Num n) = (n \<noteq> ''0'' \<and> n \<noteq> ''NaN'')"
| "Boolean (Bool b) = b"

text \<open>
  The decimal digits of a natural number: how \<^verbatim>\<open>Date.now()\<close>, an integer of at most
  sixteen digits, is printed inside a template literal.
\<close>

definition digit :: "nat \<Rightarrow> char" where
  "digit d = ''0123456789'' ! d"

fun decimal :: "nat \<Rightarrow> string" where
  "decimal n = (if n < 10 then [digit n] else decimal (n div 10) @ [digit (n mod 10)])"

declare decimal.simps [simp del]

text \<open>The string a value becomes when it is used as a property key or inside a template.\<close>

fun ToString :: "jsval \<Rightarrow> string" where
  "ToString Undefined = ''undefined''"
| "ToString (Str s) = s"
| "ToString (Num n) = n"
| "ToString (Bool b) = (if b then ''true'' else ''false'')"

text \<open>
  \<^verbatim>\<open>toLowerCase\<close> on the ASCII letters. Every candidate column name is pure ASCII and no
  character outside ASCII lower-cases to a letter that occurs in one of them, so leaving
  the other characters alone does not change which headers match.
\<close>

definition lowerChar :: "char \<Rightarrow> char" where
  "lowerChar c =
     (case map_of (zip ''ABCDEFGHIJKLMNOPQRSTUVWXYZ'' ''abcdefghijklmnopqrstuvwxyz'') c of
        None \<Rightarrow> c
      | Some l \<Rightarrow> l)"

definition toLowerCase :: "string \<Rightarrow> string" where
  "toLowerCase s = map lowerChar s"

definition Object_keys :: "row \<Rightarrow> string list" where
  "Object_keys r = map fst r"

text \<open>
  \<^verbatim>\<open>row[key]\<close>: an absent property reads as \<^verbatim>\<open>undefined\<close>, and the key
  \<^verbatim>\<open>undefined\<close> itself is turned into the property name \<^verbatim>\<open>"undefined"\<close>.
\<close>

definition getProp :: "row \<Rightarrow> string option \<Rightarrow> jsval" where
  "getProp r key =
     (case map_of r (case key of None \<Rightarrow> ''undefined'' | Some k \<Rightarrow> k) of
        None \<Rightarrow> Undefined
      | Some v \<Rightarrow> v)"

text \<open>
  \<^verbatim>\<open>Array.from(new Set(xs))\<close>: the set is filled from left to right, \<^verbatim>\<open>add\<close> ignores a
  value that is already a member, and iteration follows insertion order.
\<close>

definition Set_add :: "'a list \<Rightarrow> 'a \<Rightarrow> 'a list" where
  "Set_add s x = (if x \<in> set s then s else s @ [x])"

definition Array_from_Set :: "'a list \<Rightarrow> 'a list" where
  "Array_from_Set xs = foldl Set_add [] xs"

section \<open>Group inference (\<^verbatim>\<open>extractGroups\<close>)\<close>

definition groupCandidates :: "string list" where
  "groupCandidates =
     [''group'', ''taxon name'', ''wavelength (nm)'', ''wavelength'', ''compound'', ''sample'']"

text \<open>
  \<^verbatim>\<open>availableColumns.find((col, idx) => groupCandidates.includes(normalizedColumns[idx]))\<close>
\<close>

definition findColumn :: "string list \<Rightarrow> string list \<Rightarrow> string option" where
  "findColumn availableColumns normalizedColumns =
     map_option fst
       (List.find (\<lambda>(col, norm). norm \<in> set groupCandidates)
          (zip availableColumns normalizedColumns))"

text \<open>
  The local \<^verbatim>\<open>selectedColumn\<close>: the result of \<^verbatim>\<open>find\<close>, replaced by
  \<^verbatim>\<open>availableColumns[0]\<close> when it is falsy (not found, or the empty string).
  \<^verbatim>\<open>availableColumns[0]\<close> of an empty array is \<^verbatim>\<open>undefined\<close>, here \<open>None\<close>.
\<close>

definition selectedColumn :: "row \<Rightarrow> string option" where
  "selectedColumn firstRow =
     (let availableColumns = Object_keys firstRow;
          normalizedColumns = map toLowerCase availableColumns;
          found = findColumn availableColumns normalizedColumns
      in if found = None \<or> found = Some []
         then (case availableColumns of [] \<Rightarrow> None | c # _ \<Rightarrow> Some c)
         else found)"

definition uniqueOptions :: "string \<Rightarrow> row list \<Rightarrow> row \<Rightarrow> jsval list" where
  "uniqueOptions selected jsonData firstRow =
     (if selected = ''ControlVsFn'' \<or> selected = ''AlphaDiversity''
         \<or> selected = ''BetaDiversity'' \<or> selected = ''SMDI''
      then [Str ''Control'', Str ''Fn'']
      else if selected = ''Correlations''
      then [Str ''scatter'', Str ''line'']
      else Array_from_Set
             (filter Boolean (map (\<lambda>r. getProp r (selectedColumn firstRow)) jsonData)))"

text \<open>
  \<^verbatim>\<open>initialColors\<close>: one assignment \<^verbatim>\<open>initialColors[option] = '#000000'\<close> per
  option, in order, starting from the empty object.
\<close>

definition initialColors :: "jsval list \<Rightarrow> (string \<rightharpoonup> string)" where
  "initialColors options =
     foldl (\<lambda>m option. m(ToString option \<mapsto> ''#000000'')) Map.empty options"

section \<open>The component of \<^verbatim>\<open>src/App.tsx\<close>\<close>

text \<open>
  The \<^verbatim>\<open>useState\<close> cells of the component. (\<^verbatim>\<open>file\<close> is called \<open>curFile\<close> here.)
  A handler is a function from the state before the event to the state after it; React
  applies the updates of one handler together.
\<close>

record App =
  selected :: string
  curFile :: "File option"
  imageUrl :: "string option"
  error :: string
  groups :: "jsval list"
  colors :: "string \<rightharpoonup> string"

text \<open>
  \<^verbatim>\<open>extractGroups\<close>. A failing reader throws before any update, so the rejected
  promise leaves the state as it was.
\<close>

definition extractGroups :: "File \<Rightarrow> App \<Rightarrow> exn + App" where
  "extractGroups f s =
     (case sheet f of
        ReadFails \<Rightarrow> Inl ReaderError
      | Rows jsonData \<Rightarrow>
          (case jsonData of
             [] \<Rightarrow> Inr (s\<lparr>groups := []\<rparr>)
           | firstRow # _ \<Rightarrow>
               (let options = uniqueOptions (selected s) jsonData firstRow
                in Inr (s\<lparr>groups := options, colors := initialColors options\<rparr>))))"

text \<open>
  \<^verbatim>\<open>handleFileChange\<close>. The argument is \<^verbatim>\<open>e.target.files\<close>: \<open>None\<close> for
  \<^verbatim>\<open>null\<close>, otherwise the files of the list. Nothing catches a rejection of
  \<^verbatim>\<open>extractGroups\<close>: the updates made before it stay.
\<close>

definition handleFileChange :: "File list option \<Rightarrow> App \<Rightarrow> App" where
  "handleFileChange files s =
     (let s1 = s\<lparr>error := ''''\<rparr>
      in case files of
           None \<Rightarrow> s1
         | Some [] \<Rightarrow> s1
         | Some (uploadedFile # _) \<Rightarrow>
             (let s2 = s1\<lparr>curFile := Some uploadedFile\<rparr>
              in case extractGroups uploadedFile s2 of
                   Inl _ \<Rightarrow> s2
                 | Inr s3 \<Rightarrow> s3))"

definition handleColorChange :: "jsval \<Rightarrow> string \<Rightarrow> App \<Rightarrow> App" where
  "handleColorChange grp color s = s\<lparr>colors := (colors s)(ToString grp \<mapsto> color)\<rparr>"

definition handleClean :: "App \<Rightarrow> App" where
  "handleClean s =
     s\<lparr>curFile := None, imageUrl := None, error := '''', groups := [], colors := Map.empty\<rparr>"

text \<open>The \<^verbatim>\<open>onClick\<close> of a category button: \<^verbatim>\<open>setSelected(type); handleClean()\<close>.\<close>

definition selectCategory :: "string \<Rightarrow> App \<Rightarrow> App" where
  "selectCategory type s = handleClean (s\<lparr>selected := type\<rparr>)"

text \<open>
  What comes back from \<^verbatim>\<open>fetch\<close> and \<^verbatim>\<open>res.json()\<close>: the transport fails, or a response
  arrives with a status and a body. The body does not parse, or parses to \<^verbatim>\<open>null\<close>, or
  parses to a value whose properties can be read (absent ones as \<^verbatim>\<open>undefined\<close>).
  \<^verbatim>\<open>res.ok\<close> holds for a status from 200 to 299.
\<close>

datatype json = NotJson | JNull | JObject row

datatype fetched = NetworkError | Response nat json

definition ok :: "nat \<Rightarrow> bool" where
  "ok status = (200 \<le> status \<and> status \<le> 299)"

definition errorMessage :: string where
  "errorMessage = ''ERROR: Maybe the file is wrong or data is missing?''"

text \<open>
  \<^verbatim>\<open>handleCreateChart\<close> after \<^verbatim>\<open>await fetch(...)\<close>: the rest of the \<^verbatim>\<open>try\<close> block and the
  \<^verbatim>\<open>catch\<close>. \<open>now\<close> is the value of \<^verbatim>\<open>Date.now()\<close>. The form data sent with the request
  does not enter the state; the response is an input here.
\<close>

definition handleCreateChart_settle :: "fetched \<Rightarrow> nat \<Rightarrow> App \<Rightarrow> App" where
  "handleCreateChart_settle res now s =
     (case res of
        NetworkError \<Rightarrow> s\<lparr>error := errorMessage\<rparr>
      | Response status body \<Rightarrow>
          if \<not> ok status then s\<lparr>error := errorMessage\<rparr>
          else (case body of
                  NotJson \<Rightarrow> s\<lparr>error := errorMessage\<rparr>
                | JNull \<Rightarrow> s\<lparr>error := errorMessage\<rparr>
                | JObject data \<Rightarrow>
                    s\<lparr>imageUrl :=
                        Some (''https://bacteria-server.onrender.com''
                              @ ToString (getProp data (Some ''img''))
                              @ ''?t='' @ decimal now),
                      error := ''''\<rparr>))"

definition handleCreateChart :: "string \<Rightarrow> fetched \<Rightarrow> nat \<Rightarrow> App \<Rightarrow> App" where
  "handleCreateChart chartType res now s =
     (if curFile s = None then s else handleCreateChart_settle res now s)"

text \<open>
  What \<^verbatim>\<open>handleDownload\<close> does: nothing, or a save of the fetched address under a file
  name (the \<^verbatim>\<open>download\<close> attribute of the link that is clicked), or a line on the console
  when fetching fails.
\<close>

datatype download = NoAction | Saved string string | Logged string

definition handleDownload :: "bool \<Rightarrow> App \<Rightarrow> download" where
  "handleDownload fetchWorks s =
     (case imageUrl s of
        None \<Rightarrow> NoAction
      | Some url \<Rightarrow>
          if url = [] then NoAction
          else if fetchWorks then Saved url ''chart.svg''
          else Logged ''Error downloading the SVG:'')"

section \<open>The first component of \<^verbatim>\<open>src/unnamed/part_000\<close>\<close>

record App_a =
  selected_a :: string
  curFile_a :: "File option"
  imageUrl_a :: "string option"
  error_a :: string

definition handleFileChange_a :: "File list option \<Rightarrow> App_a \<Rightarrow> App_a" where
  "handleFileChange_a files s =
     (let s1 = s\<lparr>error_a := ''''\<rparr>
      in case files of
           None \<Rightarrow> s1
         | Some [] \<Rightarrow> s1
         | Some (f # _) \<Rightarrow> s1\<lparr>curFile_a := Some f\<rparr>)"

text \<open>
  \<^verbatim>\<open>handleAskBE\<close> after \<^verbatim>\<open>await fetch(...)\<close>: the body is parsed whatever the status is.
\<close>

definition handleAskBE_settle :: "fetched \<Rightarrow> App_a \<Rightarrow> App_a" where
  "handleAskBE_settle res s =
     (case res of
        NetworkError \<Rightarrow> s\<lparr>error_a := errorMessage\<rparr>
      | Response status body \<Rightarrow>
          (case body of
             NotJson \<Rightarrow> s\<lparr>error_a := errorMessage\<rparr>
           | JNull \<Rightarrow> s\<lparr>error_a := errorMessage\<rparr>
           | JObject data \<Rightarrow>
               s\<lparr>imageUrl_a :=
                   Some (''https://bacteria-server.onrender.com''
                         @ ToString (getProp data (Some ''img'')))\<rparr>))"

definition handleAskBE :: "string \<Rightarrow> fetched \<Rightarrow> App_a \<Rightarrow> App_a" where
  "handleAskBE chartType res s =
     (if curFile_a s = None then s else handleAskBE_settle res s)"

definition handleClean_a :: "App_a \<Rightarrow> App_a" where
  "handleClean_a s = s\<lparr>curFile_a := None, imageUrl_a := None, error_a := ''''\<rparr>"

definition selectCategory_a :: "string \<Rightarrow> App_a \<Rightarrow> App_a" where
  "selectCategory_a type s = handleClean_a (s\<lparr>selected_a := type\<rparr>)"

section \<open>The second component of \<^verbatim>\<open>src/unnamed/part_000\<close>\<close>

record App_b =
  selected_b :: string
  curFile_b :: "File option"
  imageSvgUrl :: "string option"
  imageEmfUrl :: "string option"
  error_b :: string
  groups_b :: "jsval list"
  colors_b :: "string \<rightharpoonup> string"
  customTitle :: string
  xLabel :: string
  yLabel :: string
  loading :: bool

text \<open>\<^verbatim>\<open>extractGroups\<close> and \<^verbatim>\<open>handleFileChange\<close> have the text they have in \<^verbatim>\<open>src/App.tsx\<close>.\<close>

definition extractGroups_b :: "File \<Rightarrow> App_b \<Rightarrow> exn + App_b" where
  "extractGroups_b f s =
     (case sheet f of
        ReadFails \<Rightarrow> Inl ReaderError
      | Rows jsonData \<Rightarrow>
          (case jsonData of
             [] \<Rightarrow> Inr (s\<lparr>groups_b := []\<rparr>)
           | firstRow # _ \<Rightarrow>
               (let options = uniqueOptions (selected_b s) jsonData firstRow
                in Inr (s\<lparr>groups_b := options, colors_b := initialColors options\<rparr>))))"

definition handleFileChange_b :: "File list option \<Rightarrow> App_b \<Rightarrow> App_b" where
  "handleFileChange_b files s =
     (let s1 = s\<lparr>error_b := ''''\<rparr>
      in case files of
           None \<Rightarrow> s1
         | Some [] \<Rightarrow> s1
         | Some (uploadedFile # _) \<Rightarrow>
             (let s2 = s1\<lparr>curFile_b := Some uploadedFile\<rparr>
              in case extractGroups_b uploadedFile s2 of
                   Inl _ \<Rightarrow> s2
                 | Inr s3 \<Rightarrow> s3))"

definition handleColorChange_b :: "jsval \<Rightarrow> string \<Rightarrow> App_b \<Rightarrow> App_b" where
  "handleColorChange_b grp color s =
     s\<lparr>colors_b := (colors_b s)(ToString grp \<mapsto> color)\<rparr>"

text \<open>
  \<^verbatim>\<open>handleCreateChart\<close> in two parts: up to \<^verbatim>\<open>await fetch(...)\<close>, where the request is
  issued unless no file is present, and from there on, with the \<^verbatim>\<open>catch\<close> and the
  \<^verbatim>\<open>finally\<close>. \<open>now1\<close> and \<open>now2\<close> are the two values of \<^verbatim>\<open>Date.now()\<close>.
\<close>

definition handleCreateChart_issue_b :: "App_b \<Rightarrow> App_b option" where
  "handleCreateChart_issue_b s =
     (if curFile_b s = None then None else Some (s\<lparr>loading := True\<rparr>))"

definition handleCreateChart_settle_b :: "fetched \<Rightarrow> nat \<Rightarrow> nat \<Rightarrow> App_b \<Rightarrow> App_b" where
  "handleCreateChart_settle_b res now1 now2 s =
     (case res of
        NetworkError \<Rightarrow> s\<lparr>error_b := errorMessage, loading := False\<rparr>
      | Response status body \<Rightarrow>
          if \<not> ok status then s\<lparr>error_b := errorMessage, loading := False\<rparr>
          else (case body of
                  NotJson \<Rightarrow> s\<lparr>error_b := errorMessage, loading := False\<rparr>
                | JNull \<Rightarrow> s\<lparr>error_b := errorMessage, loading := False\<rparr>
                | JObject data \<Rightarrow>
                    s\<lparr>imageSvgUrl :=
                        Some (''https://bacteria-server-2.onrender.com''
                              @ ToString (getProp data (Some ''img_svg''))
                              @ ''?t='' @ decimal now1),
                      imageEmfUrl :=
                        Some (''https://bacteria-server-2.onrender.com''
                              @ ToString (getProp data (Some ''img_emf''))
                              @ ''?t='' @ decimal now2),
                      error_b := '''',
                      loading := False\<rparr>))"

definition handleCreateChart_b :: "string \<Rightarrow> fetched \<Rightarrow> nat \<Rightarrow> nat \<Rightarrow> App_b \<Rightarrow> App_b" where
  "handleCreateChart_b chartType res now1 now2 s =
     (case handleCreateChart_issue_b s of
        None \<Rightarrow> s
      | Some s1 \<Rightarrow> handleCreateChart_settle_b res now1 now2 s1)"

definition handleClean_b :: "App_b \<Rightarrow> App_b" where
  "handleClean_b s =
     s\<lparr>curFile_b := None, imageSvgUrl := None, imageEmfUrl := None, error_b := '''',
       xLabel := '''', yLabel := '''', customTitle := '''',
       groups_b := [], colors_b := Map.empty\<rparr>"

definition selectCategory_b :: "string \<Rightarrow> App_b \<Rightarrow> App_b" where
  "selectCategory_b type s = handleClean_b (s\<lparr>selected_b := type\<rparr>)"

text \<open>
  \<^verbatim>\<open>file.split('.')\<close>: the pieces between the separators, at least one piece.
  \<^verbatim>\<open>pop()\<close> takes the last piece.
\<close>

fun splitAt :: "char \<Rightarrow> string \<Rightarrow> string list" where
  "splitAt sep [] = [[]]"
| "splitAt sep (c # cs) =
     (if c = sep then [] # splitAt sep cs
      else (case splitAt sep cs of
              [] \<Rightarrow> [[c]]
            | p # ps \<Rightarrow> (c # p) # ps))"

definition pop :: "'a list \<Rightarrow> 'a option" where
  "pop xs = (if xs = [] then None else Some (last xs))"

definition upperChar :: "char \<Rightarrow> char" where
  "upperChar c =
     (case map_of (zip ''abcdefghijklmnopqrstuvwxyz'' ''ABCDEFGHIJKLMNOPQRSTUVWXYZ'') c of
        None \<Rightarrow> c
      | Some u \<Rightarrow> u)"

definition toUpperCase :: "string \<Rightarrow> string" where
  "toUpperCase s = map upperChar s"

text \<open>
  \<^verbatim>\<open>const extension = file.split('.').pop() || 'svg'\<close>
\<close>

definition extension :: "string \<Rightarrow> string" where
  "extension url =
     (case pop (splitAt CHR ''.'' url) of
        None \<Rightarrow> ''svg''
      | Some e \<Rightarrow> if e = [] then ''svg'' else e)"

definition handleDownload_b :: "bool \<Rightarrow> string \<Rightarrow> download" where
  "handleDownload_b fetchWorks url =
     (if url = [] then NoAction
      else if fetchWorks then Saved url (''chart.'' @ extension url)
      else Logged (''Error downloading the '' @ toUpperCase (extension url) @ '' file:''))"

section \<open>Row objects as the reader builds them\<close>

text \<open>
  \<^verbatim>\<open>Object.keys\<close> lists the keys that are array indices first, in ascending numeric order,
  and then the other keys in the order in which the properties were created. An array
  index is the canonical decimal text of an integer below \<open>2\<^sup>3\<^sup>2 - 1\<close>.
\<close>

definition digitValue :: "char \<Rightarrow> nat option" where
  "digitValue c = map_of (zip ''0123456789'' [0, 1, 2, 3, 4, 5, 6, 7, 8, 9]) c"

definition toNumber :: "string \<Rightarrow> nat" where
  "toNumber k = foldl (\<lambda>n c. 10 * n + (case digitValue c of None \<Rightarrow> 0 | Some d \<Rightarrow> d)) 0 k"

definition isArrayIndex :: "string \<Rightarrow> bool" where
  "isArrayIndex k =
     (k \<noteq> [] \<and> list_all (\<lambda>c. digitValue c \<noteq> None) k
      \<and> (k = ''0'' \<or> take 1 k \<noteq> ''0'') \<and> toNumber k < 4294967295)"

text \<open>From the properties in the order of their creation to the order of \<^verbatim>\<open>Object.keys\<close>.\<close>

definition ownKeysOrder :: "(string \<times> jsval) list \<Rightarrow> row" where
  "ownKeysOrder created =
     sort_key (\<lambda>(k, v). toNumber k) (filter (\<lambda>(k, v). isArrayIndex k) created)
     @ filter (\<lambda>(k, v). \<not> isArrayIndex k) created"

text \<open>
  Modelled from the spec: the Spreadsheet Reader, an external library that is not under
  \<^verbatim>\<open>src/\<close>, which turns the first worksheet into row records, keeping row order and
  column order, with a mapping from column header to cell value where a value may be
  absent. The worksheet is given by the texts of its header row (taken to be distinct) and
  by its data rows, each the list of its cells from left to right, a blank cell being
  \<open>Undefined\<close>. A data row that has a cell becomes one object, with one property per
  non-blank cell, named by the header of the cell's column and created from left to
  right.
\<close>

definition rowProperties :: "string list \<Rightarrow> jsval list \<Rightarrow> (string \<times> jsval) list" where
  "rowProperties headers cells = filter (\<lambda>(h, v). v \<noteq> Undefined) (zip headers cells)"

definition rowObject :: "string list \<Rightarrow> jsval list \<Rightarrow> row" where
  "rowObject headers cells = ownKeysOrder (rowProperties headers cells)"

definition sheet_to_json :: "string list \<Rightarrow> jsval list list \<Rightarrow> row list" where
  "sheet_to_json headers dataRows =
     map (rowObject headers) (filter (\<lambda>cells. rowProperties headers cells \<noteq> []) dataRows)"

section \<open>Deduplication as the specification words it\<close>

text \<open>
  Duplicates removed, first-seen order kept: the first value stays where it is and every
  later copy of it is dropped, then the same for the rest.
\<close>

function dedupFirstSeen :: "'a list \<Rightarrow> 'a list" where
  "dedupFirstSeen [] = []"
| "dedupFirstSeen (x # xs) = x # dedupFirstSeen (removeAll x xs)"
  by pat_completeness auto
termination
  by (relation "measure length") (auto simp: less_Suc_eq_le length_removeAll_less_eq)

section \<open>Initial states\<close>

definition analysisTypes :: "string list" where
  "analysisTypes =
     [''QLF'', ''Hyperspectral'', ''16S'', ''LFC'', ''pH'',
      ''CFU'', ''AlphaDiversity'', ''BetaDiversity'', ''LSMS'',
      ''Correlations'', ''FluorescenceOverTime'', ''ControlVsFn'', ''SMDI'']"

text \<open>The arguments of the \<^verbatim>\<open>useState\<close> calls of the three components.\<close>

definition App_init :: App where
  "App_init =
     \<lparr>selected = analysisTypes ! 0, curFile = None, imageUrl = None, error = '''',
      groups = [], colors = Map.empty\<rparr>"

definition App_a_init :: App_a where
  "App_a_init =
     \<lparr>selected_a = analysisTypes ! 0, curFile_a = None, imageUrl_a = None, error_a = ''''\<rparr>"

definition App_b_init :: App_b where
  "App_b_init =
     \<lparr>selected_b = analysisTypes ! 0, curFile_b = None, imageSvgUrl = None,
      imageEmfUrl = None, error_b = '''', groups_b = [], colors_b = Map.empty,
      customTitle = '''', xLabel = '''', yLabel = '''', loading = False\<rparr>"

section \<open>Lemmas about the primitives\<close>

lemma decimal_lt10: "n < 10 \<Longrightarrow> decimal n = [digit n]"
  by (simp add: decimal.simps)

lemma decimal_ge10: "\<not> n < 10 \<Longrightarrow> decimal n = decimal (n div 10) @ [digit (n mod 10)]"
  by (subst decimal.simps) simp

lemma removeAll_filter_conj: "removeAll x (filter P xs) = filter (\<lambda>y. P y \<and> y \<noteq> x) xs"
  by (induction xs) auto

text \<open>
  Filling a set that already holds \<open>acc\<close>: the values not yet in \<open>acc\<close> are appended,
  each at its first occurrence.
\<close>

lemma foldl_Set_add:
  "foldl Set_add acc xs = acc @ dedupFirstSeen (filter (\<lambda>x. x \<notin> set acc) xs)"
proof (induction xs arbitrary: acc)
  case Nil
  show ?case by simp
next
  case (Cons x xs)
  have step: "foldl Set_add acc (x # xs) = foldl Set_add (Set_add acc x) xs"
    by simp
  show ?case
  proof (cases "x \<in> set acc")
    case True
    then have "Set_add acc x = acc" by (simp add: Set_add_def)
    with step True Cons.IH [of acc] show ?thesis by simp
  next
    case False
    then have add: "Set_add acc x = acc @ [x]" by (simp add: Set_add_def)
    have "foldl Set_add (acc @ [x]) xs
            = (acc @ [x]) @ dedupFirstSeen (filter (\<lambda>y. y \<notin> set (acc @ [x])) xs)"
      by (rule Cons.IH)
    moreover have "filter (\<lambda>y. y \<notin> set (acc @ [x])) xs
            = removeAll x (filter (\<lambda>y. y \<notin> set acc) xs)"
      by (simp add: removeAll_filter_conj conj_commute)
    ultimately have "foldl Set_add (acc @ [x]) xs
            = acc @ x # dedupFirstSeen (removeAll x (filter (\<lambda>y. y \<notin> set acc) xs))"
      by simp
    with step add False show ?thesis by simp
  qed
qed

lemma Array_from_Set_dedup: "Array_from_Set xs = dedupFirstSeen xs"
  using foldl_Set_add [of "[]" xs] by (simp add: Array_from_Set_def)

lemma set_dedupFirstSeen: "set (dedupFirstSeen xs) = set xs"
  by (induction xs rule: dedupFirstSeen.induct) auto

lemma distinct_dedupFirstSeen: "distinct (dedupFirstSeen xs)"
  by (induction xs rule: dedupFirstSeen.induct) (auto simp: set_dedupFirstSeen)

lemma find_zip_map:
  "map_option fst (List.find (\<lambda>(c, n). P n) (zip xs (map f xs))) = List.find (\<lambda>c. P (f c)) xs"
  by (induction xs) auto

lemma findColumn_find:
  "findColumn hs (map toLowerCase hs)
     = List.find (\<lambda>h. toLowerCase h \<in> set groupCandidates) hs"
  unfolding findColumn_def by (rule find_zip_map)

lemma candidate_nonempty: "toLowerCase h \<in> set groupCandidates \<Longrightarrow> h \<noteq> []"
  by (auto simp: toLowerCase_def groupCandidates_def)

lemma foldl_colors:
  "foldl (\<lambda>m option. m(ToString option \<mapsto> c)) m0 options k
     = (if k \<in> ToString ` set options then Some c else m0 k)"
  by (induction options arbitrary: m0) auto

lemma initialColors_apply:
  "initialColors options k = (if k \<in> ToString ` set options then Some ''#000000'' else None)"
  by (simp add: initialColors_def foldl_colors)

lemma dom_initialColors: "dom (initialColors options) = ToString ` set options"
  by (auto simp: initialColors_apply dom_def)

section \<open>Group inference\<close>

text \<open>
  C1 (as amended). When the uploaded sheet has at least one row, \<^verbatim>\<open>extractGroups\<close> sets the
  group list to \<^verbatim>\<open>["Control", "Fn"]\<close> for the categories ControlVsFn, AlphaDiversity,
  BetaDiversity and SMDI, and to \<^verbatim>\<open>["scatter", "line"]\<close> for Correlations, whatever the
  rows contain.
\<close>

theorem extractGroups_fixed_lists:
  assumes "sheet f = Rows (firstRow # rest)"
  shows "(selected s \<in> {''ControlVsFn'', ''AlphaDiversity'', ''BetaDiversity'', ''SMDI''} \<longrightarrow>
            map_sum id groups (extractGroups f s) = Inr [Str ''Control'', Str ''Fn''])
       \<and> (selected s = ''Correlations'' \<longrightarrow>
            map_sum id groups (extractGroups f s) = Inr [Str ''scatter'', Str ''line''])"
  using assms by (auto simp: extractGroups_def uniqueOptions_def Let_def)

theorem extractGroups_fixed_lists_witness:
  "map_sum id groups
     (extractGroups \<lparr>name = ''smdi.xlsx'', sheet = Rows [[(''Sample'', Str ''s1''), (''SMDI_Value'', Num ''4'')]]\<rparr>
        (selectCategory ''SMDI'' App_init)) = Inr [Str ''Control'', Str ''Fn'']
   \<and> map_sum id groups
     (extractGroups \<lparr>name = ''corr.xlsx'', sheet = Rows [[(''Sample'', Str ''s1''), (''Parameter_1'', Num ''4'')]]\<rparr>
        (selectCategory ''Correlations'' App_init)) = Inr [Str ''scatter'', Str ''line'']"
  using
    extractGroups_fixed_lists
      [of "\<lparr>name = ''smdi.xlsx'', sheet = Rows [[(''Sample'', Str ''s1''), (''SMDI_Value'', Num ''4'')]]\<rparr>"
          "[(''Sample'', Str ''s1''), (''SMDI_Value'', Num ''4'')]" "[]"
          "selectCategory ''SMDI'' App_init"]
    extractGroups_fixed_lists
      [of "\<lparr>name = ''corr.xlsx'', sheet = Rows [[(''Sample'', Str ''s1''), (''Parameter_1'', Num ''4'')]]\<rparr>"
          "[(''Sample'', Str ''s1''), (''Parameter_1'', Num ''4'')]" "[]"
          "selectCategory ''Correlations'' App_init"]
  by (simp add: selectCategory_def handleClean_def)

text \<open>
  C1 as stated fails on the empty sheet: there the group list becomes empty, also in
  category ControlVsFn.
\<close>

theorem extractGroups_empty_sheet_ControlVsFn:
  "map_sum id groups
     (extractGroups \<lparr>name = ''empty.xlsx'', sheet = Rows []\<rparr>
        (selectCategory ''ControlVsFn'' App_init)) = Inr []"
  by (simp add: extractGroups_def selectCategory_def handleClean_def App_init_def)

text \<open>
  C2 (as amended). The column \<^verbatim>\<open>extractGroups\<close> selects is the first key of the first row
  object whose lower-cased form is one of the candidates; when there is none it is the
  first key of that object (and \<^verbatim>\<open>undefined\<close> when the object has no key at all). The
  keys are the ones \<^verbatim>\<open>Object.keys\<close> lists for the first row object, in its order.
\<close>

theorem selectedColumn_first_candidate:
  "selectedColumn firstRow =
     (case List.find (\<lambda>h. toLowerCase h \<in> set groupCandidates) (Object_keys firstRow) of
        Some h \<Rightarrow> Some h
      | None \<Rightarrow> (case Object_keys firstRow of [] \<Rightarrow> None | h # _ \<Rightarrow> Some h))"
proof (cases "List.find (\<lambda>h. toLowerCase h \<in> set groupCandidates) (Object_keys firstRow)")
  case None
  then show ?thesis
    by (simp add: selectedColumn_def findColumn_find Let_def)
next
  case (Some h)
  then have "toLowerCase h \<in> set groupCandidates"
    by (auto simp: find_Some_iff)
  then have "h \<noteq> []" by (rule candidate_nonempty)
  with Some show ?thesis
    by (simp add: selectedColumn_def findColumn_find Let_def)
qed

theorem selectedColumn_first_candidate_witness:
  "selectedColumn [(''Sample Name'', Str ''s1''), (''Value'', Num ''3'')] = Some ''Sample Name''
   \<and> selectedColumn [(''Point'', Num ''1''), (''Group'', Str ''A''), (''Sample'', Str ''s1'')]
       = Some ''Group''"
  by (simp add: selectedColumn_first_candidate Object_keys_def toLowerCase_def lowerChar_def
      groupCandidates_def)

text \<open>
  C2 as stated, with the headers of the sheet in file order, fails. A header that is an
  array index is listed before the other keys, so for the header row \<^verbatim>\<open>Zeta | 10\<close> the
  fallback takes the second column, and its values become the groups. A blank cell in the
  first data row leaves no property behind, so the candidate header \<^verbatim>\<open>Group\<close> is not
  seen and \<^verbatim>\<open>Point\<close> is selected.
\<close>

theorem selectedColumn_not_file_order:
  "selectedColumn (rowObject [''Zeta'', ''10''] [Str ''z'', Num ''5'']) = Some ''10''
   \<and> selectedColumn (rowObject [''Group'', ''Point''] [Undefined, Num ''1'']) = Some ''Point''
   \<and> map_sum id groups
       (extractGroups
          \<lparr>name = ''zeta.xlsx'',
           sheet = Rows (sheet_to_json [''Zeta'', ''10'']
                           [[Str ''z'', Num ''5''], [Str ''y'', Num ''6'']])\<rparr>
          App_init) = Inr [Num ''5'', Num ''6'']"
  by (simp add: sheet_to_json_def rowObject_def rowProperties_def ownKeysOrder_def
      isArrayIndex_def toNumber_def digitValue_def selectedColumn_def findColumn_def
      Object_keys_def toLowerCase_def lowerChar_def groupCandidates_def extractGroups_def
      uniqueOptions_def App_init_def analysisTypes_def Array_from_Set_def Set_add_def
      getProp_def Let_def)

text \<open>
  When no header is an array index and the first data row has a cell in every column, the
  keys of the first row object are the headers in file order.
\<close>

lemma rowProperties_full:
  assumes "length cells = length headers" and "Undefined \<notin> set cells"
  shows "rowProperties headers cells = zip headers cells"
proof -
  have "\<forall>p \<in> set (zip headers cells). snd p \<noteq> Undefined"
    using assms(2) by (auto dest: set_zip_rightD)
  then show ?thesis
    by (auto simp: rowProperties_def filter_id_conv)
qed

lemma ownKeysOrder_no_index:
  assumes "\<forall>p \<in> set created. \<not> isArrayIndex (fst p)"
  shows "ownKeysOrder created = created"
proof -
  have "filter (\<lambda>(k, v). isArrayIndex k) created = []"
    using assms by (auto simp: filter_empty_conv)
  moreover have "filter (\<lambda>(k, v). \<not> isArrayIndex k) created = created"
    using assms by (auto simp: filter_id_conv)
  ultimately show ?thesis by (simp add: ownKeysOrder_def)
qed

lemma rowObject_keys_file_order:
  assumes "\<forall>h \<in> set headers. \<not> isArrayIndex h"
    and "length cells = length headers" and "Undefined \<notin> set cells"
  shows "Object_keys (rowObject headers cells) = headers"
proof -
  have "\<forall>p \<in> set (zip headers cells). \<not> isArrayIndex (fst p)"
    using assms(1) by (auto dest: set_zip_leftD)
  then have "rowObject headers cells = zip headers cells"
    by (simp add: rowObject_def rowProperties_full [OF assms(2,3)] ownKeysOrder_no_index)
  then show ?thesis using assms(2) by (simp add: Object_keys_def)
qed

text \<open>
  C3. For a sheet with at least one row and a category without a fixed list, the group
  list is the selected column read from every row, falsy values dropped, duplicates
  removed in first-seen order; it has no duplicates.
\<close>

theorem extractGroups_unique_first_seen:
  assumes "sheet f = Rows (firstRow # rest)"
    and "selected s \<notin> {''ControlVsFn'', ''AlphaDiversity'', ''BetaDiversity'', ''SMDI'',
                         ''Correlations''}"
  shows "map_sum id groups (extractGroups f s)
           = Inr (dedupFirstSeen (filter Boolean
                    (map (\<lambda>r. getProp r (selectedColumn firstRow)) (firstRow # rest))))
       \<and> distinct (dedupFirstSeen (filter Boolean
                    (map (\<lambda>r. getProp r (selectedColumn firstRow)) (firstRow # rest))))"
  using assms
  by (simp add: extractGroups_def uniqueOptions_def Let_def Array_from_Set_dedup
      distinct_dedupFirstSeen)

theorem extractGroups_unique_first_seen_witness:
  "map_sum id groups
     (extractGroups
        \<lparr>name = ''qlf.xlsx'',
         sheet = Rows [[(''Point'', Num ''1''), (''Group'', Str ''B'')],
                       [(''Point'', Num ''2''), (''Group'', Str ''A'')],
                       [(''Point'', Num ''3''), (''Group'', Str ''B'')],
                       [(''Point'', Num ''4'')],
                       [(''Point'', Num ''5''), (''Group'', Num ''0'')]]\<rparr>
        App_init) = Inr [Str ''B'', Str ''A'']"
  using extractGroups_unique_first_seen
    [of "\<lparr>name = ''qlf.xlsx'',
         sheet = Rows [[(''Point'', Num ''1''), (''Group'', Str ''B'')],
                       [(''Point'', Num ''2''), (''Group'', Str ''A'')],
                       [(''Point'', Num ''3''), (''Group'', Str ''B'')],
                       [(''Point'', Num ''4'')],
                       [(''Point'', Num ''5''), (''Group'', Num ''0'')]]\<rparr>"
        "[(''Point'', Num ''1''), (''Group'', Str ''B'')]"
        "[[(''Point'', Num ''2''), (''Group'', Str ''A'')],
          [(''Point'', Num ''3''), (''Group'', Str ''B'')],
          [(''Point'', Num ''4'')],
          [(''Point'', Num ''5''), (''Group'', Num ''0'')]]"
        App_init]
  by (simp add: App_init_def analysisTypes_def selectedColumn_def findColumn_def
      Object_keys_def toLowerCase_def lowerChar_def groupCandidates_def getProp_def)

section \<open>Colours after inference\<close>

text \<open>
  On a sheet with at least one row the colour object is rebuilt from the new group list:
  its keys are the groups (as property keys) and every value is black.
\<close>

lemma extractGroups_colors:
  assumes "sheet f = Rows (firstRow # rest)" and "extractGroups f s = Inr s'"
  shows "colors s' = initialColors (groups s')"
  using assms by (auto simp: extractGroups_def Let_def)

lemma extractGroups_seeds_colors:
  assumes "sheet f = Rows (firstRow # rest)" and "extractGroups f s = Inr s'"
  shows "colors s' k = (if k \<in> ToString ` set (groups s') then Some ''#000000'' else None)"
  by (simp only: extractGroups_colors [OF assms] initialColors_apply)

lemma extractGroups_dom_colors:
  assumes "sheet f = Rows (firstRow # rest)" and "extractGroups f s = Inr s'"
  shows "dom (colors s') = ToString ` set (groups s')"
  by (simp only: extractGroups_colors [OF assms] dom_initialColors)

text \<open>
  C4 fails on the empty sheet. A first upload in category QLF gives the group \<^verbatim>\<open>A\<close> its
  colour; a second upload whose sheet has no rows empties the group list and returns
  before \<^verbatim>\<open>setColors\<close>, so the colour of \<^verbatim>\<open>A\<close> stays.
\<close>

theorem extractGroups_empty_sheet_keeps_colors:
  "groups (handleFileChange (Some [\<lparr>name = ''empty.xlsx'', sheet = Rows []\<rparr>])
            (handleFileChange
               (Some [\<lparr>name = ''qlf.xlsx'',
                       sheet = Rows [[(''Point'', Num ''1''), (''Group'', Str ''A'')]]\<rparr>])
               App_init)) = []
   \<and> colors (handleFileChange (Some [\<lparr>name = ''empty.xlsx'', sheet = Rows []\<rparr>])
            (handleFileChange
               (Some [\<lparr>name = ''qlf.xlsx'',
                       sheet = Rows [[(''Point'', Num ''1''), (''Group'', Str ''A'')]]\<rparr>])
               App_init)) = [''A'' \<mapsto> ''#000000'']"
  by (simp add: handleFileChange_def extractGroups_def uniqueOptions_def App_init_def
      analysisTypes_def initialColors_def Array_from_Set_def Set_add_def selectedColumn_def
      findColumn_def Object_keys_def toLowerCase_def lowerChar_def groupCandidates_def
      getProp_def Let_def)

section \<open>Session state\<close>

text \<open>
  C5. Clicking a category button sets the category and clears the file, the result
  address(es), the error, the groups and the colours in one step, whatever the state was.
  In the second component of part_000 the labels are cleared too and the loading flag is
  not touched.
\<close>

theorem selectCategory_resets:
  "selectCategory type s =
     \<lparr>selected = type, curFile = None, imageUrl = None, error = '''', groups = [],
      colors = Map.empty\<rparr>
   \<and> selectCategory_b type sb =
     \<lparr>selected_b = type, curFile_b = None, imageSvgUrl = None, imageEmfUrl = None,
      error_b = '''', groups_b = [], colors_b = Map.empty, customTitle = '''',
      xLabel = '''', yLabel = '''', loading = loading sb\<rparr>"
  by (simp add: selectCategory_def handleClean_def selectCategory_b_def handleClean_b_def)

theorem selectCategory_resets_witness:
  "selectCategory ''pH''
     (handleCreateChart ''bar'' (Response 500 NotJson) 1700000000000
        (handleFileChange
           (Some [\<lparr>name = ''qlf.xlsx'',
                   sheet = Rows [[(''Point'', Num ''1''), (''Group'', Str ''A'')]]\<rparr>])
           App_init))
   = \<lparr>selected = ''pH'', curFile = None, imageUrl = None, error = '''', groups = [],
      colors = Map.empty\<rparr>"
  using selectCategory_resets [of "''pH''"] by simp

text \<open>
  C6 (as amended). When the request fails, by transport or by a status outside 200..299,
  the state after the failure has the fixed, non-empty message in the error field and, in
  the component that has a loading flag, the flag cleared. The result address(es) are
  what they were before. \<open>s\<close> and \<open>sb\<close> are the states in which the failure arrives.
\<close>

theorem handleCreateChart_failure:
  assumes "res = NetworkError \<or> (\<exists>status body. res = Response status body \<and> \<not> ok status)"
  shows "error (handleCreateChart_settle res now s) = errorMessage
       \<and> imageUrl (handleCreateChart_settle res now s) = imageUrl s
       \<and> error_b (handleCreateChart_settle_b res now1 now2 sb) = errorMessage
       \<and> \<not> loading (handleCreateChart_settle_b res now1 now2 sb)
       \<and> imageSvgUrl (handleCreateChart_settle_b res now1 now2 sb) = imageSvgUrl sb
       \<and> imageEmfUrl (handleCreateChart_settle_b res now1 now2 sb) = imageEmfUrl sb
       \<and> errorMessage \<noteq> ''''"
  using assms
  by (auto simp: handleCreateChart_settle_def handleCreateChart_settle_b_def errorMessage_def)

theorem handleCreateChart_failure_witness:
  "error (handleCreateChart_settle (Response 500 NotJson) 1700000000000
            (handleFileChange
               (Some [\<lparr>name = ''qlf.xlsx'',
                       sheet = Rows [[(''Point'', Num ''1''), (''Group'', Str ''A'')]]\<rparr>])
               App_init)) = errorMessage
   \<and> \<not> loading (handleCreateChart_settle_b NetworkError 1700000000000 1700000000001
            (App_b_init\<lparr>loading := True\<rparr>))"
  using
    handleCreateChart_failure [of "Response 500 NotJson" 1700000000000
       "handleFileChange
               (Some [\<lparr>name = ''qlf.xlsx'',
                       sheet = Rows [[(''Point'', Num ''1''), (''Group'', Str ''A'')]]\<rparr>])
               App_init"]
    handleCreateChart_failure [of NetworkError _ _ 1700000000000 1700000000001
       "App_b_init\<lparr>loading := True\<rparr>"]
  by (simp add: ok_def)

text \<open>
  C6 as stated fails: a chart that was produced stays in the state when the next request
  for the same file fails with status 500.
\<close>

theorem handleCreateChart_failure_keeps_url:
  "imageSvgUrl
     (handleCreateChart_b ''bar'' (Response 500 NotJson) 1700000000600 1700000000600
        (handleCreateChart_b ''bar''
           (Response 200 (JObject [(''img_svg'', Str ''/static/chart.svg''),
                                   (''img_emf'', Str ''/static/chart.emf'')]))
           1700000000000 1700000000000
           (handleFileChange_b
              (Some [\<lparr>name = ''qlf.xlsx'',
                      sheet = Rows [[(''Point'', Num ''1''), (''Group'', Str ''A'')]]\<rparr>])
              App_b_init)))
   = Some ''https://bacteria-server-2.onrender.com/static/chart.svg?t=1700000000000''"
  by (simp add: handleCreateChart_b_def handleCreateChart_issue_b_def
      handleCreateChart_settle_b_def handleFileChange_b_def extractGroups_b_def
      App_b_init_def ok_def getProp_def decimal_lt10 decimal_ge10 digit_def Let_def)

text \<open>
  C7 fails in the first component of part_000: \<^verbatim>\<open>handleAskBE\<close> does not look at the
  status. A response with status 500 and a JSON body is stored as a result address, built
  from the missing \<^verbatim>\<open>img\<close> property, and no error is set.
\<close>

theorem handleAskBE_error_status_stores_url:
  "imageUrl_a
     (handleAskBE ''bar'' (Response 500 (JObject [(''error'', Str ''Internal Server Error'')]))
        (handleFileChange_a
           (Some [\<lparr>name = ''qlf.xlsx'',
                   sheet = Rows [[(''Point'', Num ''1''), (''Group'', Str ''A'')]]\<rparr>])
           App_a_init))
     = Some ''https://bacteria-server.onrender.comundefined''
   \<and> error_a
     (handleAskBE ''bar'' (Response 500 (JObject [(''error'', Str ''Internal Server Error'')]))
        (handleFileChange_a
           (Some [\<lparr>name = ''qlf.xlsx'',
                   sheet = Rows [[(''Point'', Num ''1''), (''Group'', Str ''A'')]]\<rparr>])
           App_a_init)) = ''''"
  by (simp add: handleAskBE_def handleAskBE_settle_def handleFileChange_a_def App_a_init_def
      getProp_def)

text \<open>
  C8 (as amended). A change event that carries a file stores the file and clears the
  error; the result address and the category are left as they were. When the reader
  decodes the file the inference runs: the group list is the inferred one and, when the
  sheet has a row, the colours are seeded from it. When the reader fails nothing catches
  the failure, and the groups and the colours are the ones of the state before.
\<close>

theorem handleFileChange_upload:
  assumes "files = Some (f # fs)"
  shows "curFile (handleFileChange files s) = Some f
       \<and> error (handleFileChange files s) = ''''
       \<and> imageUrl (handleFileChange files s) = imageUrl s
       \<and> selected (handleFileChange files s) = selected s
       \<and> (case sheet f of
             ReadFails \<Rightarrow>
               groups (handleFileChange files s) = groups s
               \<and> colors (handleFileChange files s) = colors s
           | Rows [] \<Rightarrow> groups (handleFileChange files s) = []
           | Rows (firstRow # rest) \<Rightarrow>
               groups (handleFileChange files s)
                 = uniqueOptions (selected s) (firstRow # rest) firstRow
               \<and> colors (handleFileChange files s)
                 = initialColors (groups (handleFileChange files s)))"
  using assms
  by (auto simp: handleFileChange_def extractGroups_def Let_def
      split: worksheet.splits list.splits)

theorem handleFileChange_upload_witness:
  "groups (handleFileChange
       (Some [\<lparr>name = ''qlf.xlsx'',
               sheet = Rows [[(''Point'', Num ''1''), (''Group'', Str ''A'')]]\<rparr>])
       (App_init\<lparr>error := errorMessage\<rparr>)) = [Str ''A'']
   \<and> error (handleFileChange
       (Some [\<lparr>name = ''qlf.xlsx'',
               sheet = Rows [[(''Point'', Num ''1''), (''Group'', Str ''A'')]]\<rparr>])
       (App_init\<lparr>error := errorMessage\<rparr>)) = ''''
   \<and> curFile (handleFileChange (Some [\<lparr>name = ''notes.txt'', sheet = ReadFails\<rparr>])
       (App_init\<lparr>groups := [Str ''A'']\<rparr>))
       = Some \<lparr>name = ''notes.txt'', sheet = ReadFails\<rparr>
   \<and> groups (handleFileChange (Some [\<lparr>name = ''notes.txt'', sheet = ReadFails\<rparr>])
       (App_init\<lparr>groups := [Str ''A'']\<rparr>)) = [Str ''A'']"
  using
    handleFileChange_upload
      [of "Some [\<lparr>name = ''qlf.xlsx'',
               sheet = Rows [[(''Point'', Num ''1''), (''Group'', Str ''A'')]]\<rparr>]"
        "\<lparr>name = ''qlf.xlsx'',
          sheet = Rows [[(''Point'', Num ''1''), (''Group'', Str ''A'')]]\<rparr>"
        "[]" "App_init\<lparr>error := errorMessage\<rparr>"]
    handleFileChange_upload
      [of "Some [\<lparr>name = ''notes.txt'', sheet = ReadFails\<rparr>]"
        "\<lparr>name = ''notes.txt'', sheet = ReadFails\<rparr>" "[]"
        "App_init\<lparr>groups := [Str ''A'']\<rparr>"]
  by (simp add: App_init_def analysisTypes_def uniqueOptions_def Array_from_Set_def
      Set_add_def selectedColumn_def findColumn_def Object_keys_def toLowerCase_def
      lowerChar_def groupCandidates_def getProp_def)

text \<open>
  C8 as stated fails in two ways. The address of a chart made for the first file is still
  in the state after a second file has been uploaded. And after a first upload, a file
  the reader cannot decode is stored with no error, next to the groups and colours of the
  first file.
\<close>

theorem handleFileChange_upload_not_FileLoaded:
  "imageUrl
     (handleFileChange
        (Some [\<lparr>name = ''second.xlsx'',
                sheet = Rows [[(''Point'', Num ''1''), (''Group'', Str ''B'')]]\<rparr>])
        (handleCreateChart ''bar''
           (Response 200 (JObject [(''img'', Str ''/static/chart.svg'')])) 1700000000000
           (handleFileChange
              (Some [\<lparr>name = ''qlf.xlsx'',
                      sheet = Rows [[(''Point'', Num ''1''), (''Group'', Str ''A'')]]\<rparr>])
              App_init)))
   = Some ''https://bacteria-server.onrender.com/static/chart.svg?t=1700000000000''
   \<and> handleFileChange (Some [\<lparr>name = ''notes.txt'', sheet = ReadFails\<rparr>])
       (handleFileChange
          (Some [\<lparr>name = ''qlf.xlsx'',
                  sheet = Rows [[(''Point'', Num ''1''), (''Group'', Str ''A'')]]\<rparr>])
          App_init)
     = \<lparr>selected = ''QLF'', curFile = Some \<lparr>name = ''notes.txt'', sheet = ReadFails\<rparr>,
        imageUrl = None, error = '''', groups = [Str ''A''],
        colors = [''A'' \<mapsto> ''#000000'']\<rparr>"
  by (simp add: handleFileChange_def extractGroups_def handleCreateChart_def
      handleCreateChart_settle_def App_init_def analysisTypes_def ok_def getProp_def
      decimal_lt10 decimal_ge10 digit_def uniqueOptions_def initialColors_def
      Array_from_Set_def Set_add_def selectedColumn_def findColumn_def Object_keys_def
      toLowerCase_def lowerChar_def groupCandidates_def Let_def)

text \<open>
  C9 fails on the addresses the component itself builds: everything after the last dot of
  the whole address is taken, so the cache-busting query ends up in the file name, and an
  address without an extension gives the tail of the host name instead of \<^verbatim>\<open>svg\<close>.
\<close>

theorem handleDownload_extension_with_query:
  "handleDownload_b True
     ''https://bacteria-server-2.onrender.com/static/chart.svg?t=1700000000000''
     = Saved ''https://bacteria-server-2.onrender.com/static/chart.svg?t=1700000000000''
         ''chart.svg?t=1700000000000''
   \<and> handleDownload_b True
     ''https://bacteria-server-2.onrender.com/static/chart?t=1700000000000''
     = Saved ''https://bacteria-server-2.onrender.com/static/chart?t=1700000000000''
         ''chart.com/static/chart?t=1700000000000''"
  by (simp add: handleDownload_b_def extension_def pop_def)

text \<open>
  C10. A change event without a file clears the error and changes nothing else.
\<close>

theorem handleFileChange_no_file:
  assumes "files = None \<or> files = Some []"
  shows "handleFileChange files s = s\<lparr>error := ''''\<rparr>
       \<and> handleFileChange_b files sb = sb\<lparr>error_b := ''''\<rparr>"
  using assms by (auto simp: handleFileChange_def handleFileChange_b_def)

theorem handleFileChange_no_file_witness:
  "handleFileChange (Some []) (App_init\<lparr>error := errorMessage, groups := [Str ''A'']\<rparr>)
     = App_init\<lparr>error := '''', groups := [Str ''A'']\<rparr>
   \<and> handleFileChange_b None (App_b_init\<lparr>error_b := errorMessage\<rparr>) = App_b_init"
  using
    handleFileChange_no_file
      [of "Some []" "App_init\<lparr>error := errorMessage, groups := [Str ''A'']\<rparr>"]
    handleFileChange_no_file [of None _ "App_b_init\<lparr>error_b := errorMessage\<rparr>"]
  by (simp add: App_b_init_def)

text \<open>
  In \<^verbatim>\<open>src/App.tsx\<close> the download does not look at the address: when something is saved,
  the name is \<^verbatim>\<open>chart.svg\<close>.
\<close>

lemma handleDownload_fixed_name:
  "handleDownload True s = NoAction \<or> (\<exists>url. handleDownload True s = Saved url ''chart.svg'')"
  by (auto simp: handleDownload_def split: option.splits)


end
